theory Spec2Isabelle
  imports Complex_Main "HOL-Library.Sublist"
begin

section \<open>Data model (shared/schema.ts)\<close>

text \<open>
  The string enums of the zod schemas become datatypes. The literals \<open>Low\<close>,
  \<open>Medium\<close>, \<open>High\<close> serve both as the budget tier of the input and as the
  feasibility level of the result, so one datatype carries both. The literal
  \<open>Industrial\<close> occurs in two different enums; the environment's one is written
  \<open>EnvIndustrial\<close>.
\<close>

datatype RoofType = RCC | GI | Asbestos | Tiles

datatype Environment = Residential | EnvIndustrial | Agricultural

datatype Purpose = Domestic | Irrigation | Industrial

datatype SoilType = Sandy | Loamy | Clayey

datatype Level = Low | Medium | High

datatype AquiferType = Alluvial | HardRock | Coastal | Desert

datatype Region = North | South | East | West | Central | Northeast

datatype CalculationType = Rainwater | Recharge

text \<open>
  A JavaScript \<open>number\<close> is modelled by a real: arithmetic on finite values is exact,
  the rounding error and the overflow of IEEE doubles are outside the model. Two
  operations of the engine are not total on the reals, division (by a divisor that can
  be zero) and the square root (of a value that can be negative); in JavaScript they
  return \<open>Infinity\<close>, \<open>-Infinity\<close> or \<open>NaN\<close>, and their results have the
  type \<open>jsnum\<close>, which adds these three values. The model has one zero.
\<close>

datatype jsnum = Fin real | PosInf | NegInf | NaN

record UserInput =
  name :: string
  location :: string
  pincode :: string
  roofArea :: real
  roofType :: RoofType
  environment :: Environment
  birdNesting :: bool
  dwellers :: real
  purpose :: Purpose
  hasOpenSpace :: bool
  openSpaceArea :: "real option"
  groundwaterDepth :: real
  soilType :: SoilType
  budget :: Level

text \<open>
  The fields \<open>pincode\<close> and \<open>groundwaterDepth\<close> of a city record are written
  \<open>cityPincode\<close> and \<open>cityGroundwaterDepth\<close>: a field name belongs to one record.
\<close>

record CityData =
  city :: string
  state :: string
  cityPincode :: string
  monthlyRainfall :: "real list"
  annualRainfall :: real
  cityGroundwaterDepth :: real
  aquiferType :: AquiferType
  region :: Region

record CostFactors =
  baseCostPerSqm :: real
  budgetMultipliers :: "Level \<Rightarrow> real"

record WaterRates =
  municipalRate :: real
  domesticConsumption :: real

text \<open>
  The objects \<open>runoffCoefficients\<close>, \<open>infiltrationRates\<close> and
  \<open>budgetMultipliers\<close> have one required number per enum literal and are read by
  that literal, so they are total functions on the enum.
\<close>

record Coefficients =
  runoffCoefficients :: "RoofType \<Rightarrow> real"
  infiltrationRates :: "SoilType \<Rightarrow> real"
  costFactors :: CostFactors
  waterRates :: WaterRates

record TankDimensions =
  diameter :: jsnum
  height :: real

record PitDimensions =
  pitLength :: jsnum
  pitWidth :: jsnum
  pitDepth :: real

record SystemCost =
  low :: real
  medium :: real
  high :: real

record CalculationResults =
  rainwaterPotential :: real
  monthlyPotential :: "real list"
  householdDemand :: real
  coveragePercentage :: jsnum
  firstFlush :: real
  tankCapacity :: real
  tankDimensions :: TankDimensions
  rechargeVolume :: "real option"
  pitDimensions :: "PitDimensions option"
  systemCost :: SystemCost
  annualSavings :: real
  paybackPeriod :: real
  feasibilityScore :: real
  feasibilityLevel :: Level
  recommendations :: "string list"
  warnings :: "string list"

text \<open>
  The constraints of \<open>userInputSchema\<close>: the boundary validator lets a record reach
  the engine only when they hold.
\<close>

definition isDigit :: "char \<Rightarrow> bool" where
  "isDigit c = (c \<in> set ''0123456789'')"

definition userInputSchema :: "UserInput \<Rightarrow> bool" where
  "userInputSchema u =
     (2 \<le> length (name u) \<and>
      2 \<le> length (location u) \<and>
      length (pincode u) = 6 \<and> list_all isDigit (pincode u) \<and>
      1 \<le> roofArea u \<and>
      1 \<le> dwellers u \<and>
      0 \<le> groundwaterDepth u)"

section \<open>JavaScript built-ins used by the engine\<close>

text \<open>\<open>Math.round\<close> rounds to the nearest integer, a tie towards \<open>+\<infinity>\<close>.\<close>

definition Math_round :: "real \<Rightarrow> real" where
  "Math_round x = of_int \<lfloor>x + 1 / 2\<rfloor>"

text \<open>
  \<open>Number(x.toFixed(1))\<close> on a finite value: the multiple of one tenth nearest to
  \<open>x\<close>, a tie away from zero (\<open>toFixed\<close> rounds the magnitude and puts the sign
  back).
\<close>

definition toFixed1 :: "real \<Rightarrow> real" where
  "toFixed1 x =
     (if x < 0 then - (of_int \<lfloor>(- x) * 10 + 1 / 2\<rfloor> / 10)
      else of_int \<lfloor>x * 10 + 1 / 2\<rfloor> / 10)"

fun js_div :: "real \<Rightarrow> real \<Rightarrow> jsnum" where
  "js_div a b =
     (if b \<noteq> 0 then Fin (a / b)
      else if 0 < a then PosInf
      else if a < 0 then NegInf
      else NaN)"

fun js_times :: "jsnum \<Rightarrow> real \<Rightarrow> jsnum" where
  "js_times (Fin x) c = Fin (x * c)"
| "js_times PosInf c = (if 0 < c then PosInf else if c < 0 then NegInf else NaN)"
| "js_times NegInf c = (if 0 < c then NegInf else if c < 0 then PosInf else NaN)"
| "js_times NaN c = NaN"

fun js_round :: "jsnum \<Rightarrow> jsnum" where
  "js_round (Fin x) = Fin (Math_round x)"
| "js_round v = v"

fun js_ceil :: "jsnum \<Rightarrow> jsnum" where
  "js_ceil (Fin x) = Fin (of_int \<lceil>x\<rceil>)"
| "js_ceil v = v"

fun js_sqrt :: "jsnum \<Rightarrow> jsnum" where
  "js_sqrt (Fin x) = (if x < 0 then NaN else Fin (sqrt x))"
| "js_sqrt PosInf = PosInf"
| "js_sqrt NegInf = NaN"
| "js_sqrt NaN = NaN"

fun js_toFixed1 :: "jsnum \<Rightarrow> jsnum" where
  "js_toFixed1 (Fin x) = Fin (toFixed1 x)"
| "js_toFixed1 v = v"

text \<open>\<open>Math.min\<close> and \<open>Math.max\<close> return \<open>NaN\<close> as soon as one argument is.\<close>

fun js_min :: "jsnum \<Rightarrow> jsnum \<Rightarrow> jsnum" where
  "js_min NaN _ = NaN"
| "js_min _ NaN = NaN"
| "js_min NegInf _ = NegInf"
| "js_min _ NegInf = NegInf"
| "js_min PosInf v = v"
| "js_min v PosInf = v"
| "js_min (Fin x) (Fin y) = Fin (min x y)"

fun js_max :: "jsnum \<Rightarrow> jsnum \<Rightarrow> jsnum" where
  "js_max NaN _ = NaN"
| "js_max _ NaN = NaN"
| "js_max PosInf _ = PosInf"
| "js_max _ PosInf = PosInf"
| "js_max NegInf v = v"
| "js_max v NegInf = v"
| "js_max (Fin x) (Fin y) = Fin (max x y)"

text \<open>The comparison \<open>v > c\<close> with a finite \<open>c\<close>; it is false on \<open>NaN\<close>.\<close>

fun js_gt :: "jsnum \<Rightarrow> real \<Rightarrow> bool" where
  "js_gt (Fin x) c = (c < x)"
| "js_gt PosInf c = True"
| "js_gt NegInf c = False"
| "js_gt NaN c = False"

text \<open>
  Strings: \<open>toLowerCase\<close> maps the letters \<open>A\<close> to \<open>Z\<close> to \<open>a\<close> to \<open>z\<close>
  and keeps every other character; \<open>s.startsWith(p)\<close>, \<open>s.includes(t)\<close> and
  \<open>s.substring(0, n)\<close> are prefix, contiguous sublist and \<open>take\<close>.
\<close>

definition lowerChar :: "char \<Rightarrow> char" where
  "lowerChar c =
     (case map_of (zip ''ABCDEFGHIJKLMNOPQRSTUVWXYZ'' ''abcdefghijklmnopqrstuvwxyz'') c of
        None \<Rightarrow> c
      | Some l \<Rightarrow> l)"

definition toLowerCase :: "string \<Rightarrow> string" where
  "toLowerCase s = map lowerChar s"

definition startsWith :: "string \<Rightarrow> string \<Rightarrow> bool" where
  "startsWith s p = prefix p s"

definition includes_str :: "string \<Rightarrow> string \<Rightarrow> bool" where
  "includes_str s t = sublist t s"

definition substring0 :: "string \<Rightarrow> nat \<Rightarrow> string" where
  "substring0 s n = take n s"

section \<open>The calculation engine\<close>

text \<open>
  The tables \<open>cities\<close> and \<open>coefficients\<close> are loaded from JSON files; every
  function that reads one takes it as its first argument. A parameter or a field of a
  returned object whose name is already a field of \<open>CalculationResults\<close> carries a
  prime.
\<close>

subsection \<open>City resolution\<close>

definition findCityData :: "CityData list \<Rightarrow> string \<Rightarrow> string \<Rightarrow> CityData option" where
  "findCityData cities location' pincode' =
     (let cityData = List.find (\<lambda>c. startsWith (cityPincode c) (substring0 pincode' 3)) cities;
          cityData =
            (if cityData = None then
               (let locationLower = toLowerCase location' in
                List.find (\<lambda>c.
                    includes_str (toLowerCase (city c)) locationLower \<or>
                    includes_str locationLower (toLowerCase (city c)) \<or>
                    includes_str (toLowerCase (state c)) locationLower) cities)
             else cityData)
      in (case cityData of
            Some c \<Rightarrow> Some c
          | None \<Rightarrow>
              (case List.find (\<lambda>c. city c = ''Delhi'') cities of
                 Some c \<Rightarrow> Some c
               | None \<Rightarrow> (case cities of [] \<Rightarrow> None | c # _ \<Rightarrow> Some c))))"

subsection \<open>Rainwater potential\<close>

record RainwaterPotential =
  annual :: real
  monthly :: "real list"

definition calculateRainwaterPotential ::
  "Coefficients \<Rightarrow> UserInput \<Rightarrow> CityData \<Rightarrow> RainwaterPotential" where
  "calculateRainwaterPotential coefficients userInput cityData =
     (let runoffCoeff = runoffCoefficients coefficients (roofType userInput);
          monthlyPotential' =
            map (\<lambda>rainfall. Math_round (roofArea userInput * rainfall * runoffCoeff))
              (monthlyRainfall cityData);
          annualPotential = foldl (\<lambda>sum month. sum + month) 0 monthlyPotential'
      in \<lparr>annual = annualPotential, monthly = monthlyPotential'\<rparr>)"

subsection \<open>Household demand\<close>

definition calculateHouseholdDemand :: "Coefficients \<Rightarrow> UserInput \<Rightarrow> real" where
  "calculateHouseholdDemand coefficients userInput =
     (let dailyConsumption = domesticConsumption (waterRates coefficients);
          adjustmentFactor = 1;
          adjustmentFactor = (if purpose userInput = Irrigation then 1.5 else adjustmentFactor);
          adjustmentFactor = (if purpose userInput = Industrial then 2 else adjustmentFactor)
      in Math_round (dwellers userInput * dailyConsumption * 365 * adjustmentFactor))"

subsection \<open>Storage tank sizing\<close>

record StorageTank =
  capacity :: real
  dimensions :: TankDimensions

definition calculateStorageTank :: "real \<Rightarrow> real list \<Rightarrow> real \<Rightarrow> StorageTank" where
  "calculateStorageTank rainwaterPotential' monthlyPotential' householdDemand' =
     (let demandBasedCapacity = Math_round ((householdDemand' / 365) * 35);
          potentialBasedCapacity = Math_round (rainwaterPotential' * 0.2);
          tankCapacity' = min (min demandBasedCapacity potentialBasedCapacity) 15000;
          tankHeight = 2;
          tankVolume = tankCapacity' / 1000;
          tankDiameter = js_sqrt (Fin ((tankVolume * 4) / (pi * tankHeight)))
      in \<lparr>capacity = max tankCapacity' 2000,
          dimensions = \<lparr>diameter = js_toFixed1 tankDiameter, height = tankHeight\<rparr>\<rparr>)"

subsection \<open>Recharge system sizing\<close>

record RechargeSystem =
  rechargeVolume' :: real
  pitDimensions' :: PitDimensions

definition calculateRechargeSystem ::
  "Coefficients \<Rightarrow> UserInput \<Rightarrow> real \<Rightarrow> CityData \<Rightarrow> RechargeSystem" where
  "calculateRechargeSystem coefficients userInput rainwaterPotential' cityData =
     (let infiltrationRate = infiltrationRates coefficients (soilType userInput);
          rechargeFactor = 0.7;
          rechargeFactor = (if soilType userInput = Sandy then 0.9 else rechargeFactor);
          rechargeFactor = (if soilType userInput = Loamy then 0.8 else rechargeFactor);
          rechargeVolume = Math_round ((rainwaterPotential' / 1000) * rechargeFactor);
          dailyInflowRate = rainwaterPotential' / 120;
          operatingHours = 8;
          infiltrationRateMs = infiltrationRate / 1000;
          minPitArea =
            js_max (Fin 9) (js_div dailyInflowRate (infiltrationRateMs * operatingHours * 1000));
          maxDepth = min 4 (max 2 (groundwaterDepth userInput * 0.3));
          storageBasedArea = (rechargeVolume * 1.2) / maxDepth;
          requiredArea = js_max minPitArea (Fin storageBasedArea);
          pitSide = js_ceil (js_sqrt requiredArea)
      in \<lparr>rechargeVolume' = rechargeVolume,
          pitDimensions' =
            \<lparr>pitLength = js_max pitSide (Fin 3),
             pitWidth = js_max pitSide (Fin 3),
             pitDepth = maxDepth\<rparr>\<rparr>)"

subsection \<open>Costs\<close>

record Costs =
  systemCost' :: SystemCost
  annualSavings' :: real
  paybackPeriod' :: real

definition calculateCosts :: "Coefficients \<Rightarrow> UserInput \<Rightarrow> real \<Rightarrow> bool \<Rightarrow> Costs" where
  "calculateCosts coefficients userInput tankCapacity' hasRecharge =
     (let baseCost = roofArea userInput * baseCostPerSqm (costFactors coefficients);
          tankCost = tankCapacity' * 0.8;
          rechargeCost = (if hasRecharge then roofArea userInput * 150 else 0);
          totalBaseCost = baseCost + tankCost + rechargeCost;
          systemCost =
            \<lparr>low = Math_round (totalBaseCost * budgetMultipliers (costFactors coefficients) Low),
             medium = Math_round (totalBaseCost * budgetMultipliers (costFactors coefficients) Medium),
             high = Math_round (totalBaseCost * budgetMultipliers (costFactors coefficients) High)\<rparr>;
          householdDemand = calculateHouseholdDemand coefficients userInput;
          municipalRate' = municipalRate (waterRates coefficients);
          maxSavableWater = min householdDemand (tankCapacity' * 10);
          annualSavings = Math_round (maxSavableWater * municipalRate');
          paybackPeriod = Math_round (medium systemCost / max annualSavings 1)
      in \<lparr>systemCost' = systemCost,
          annualSavings' = annualSavings,
          paybackPeriod' = min paybackPeriod 20\<rparr>)"

subsection \<open>Feasibility\<close>

text \<open>
  The function keeps three variables, \<open>score\<close>, \<open>recommendations\<close> and
  \<open>warnings\<close>, and runs eight blocks on them in turn; each block is a function on
  the triple, named after the comment that heads it in the source.
\<close>

type_synonym feasibilityState = "real \<times> string list \<times> string list"

definition roofTypeName :: "RoofType \<Rightarrow> string" where
  "roofTypeName t =
     (case t of RCC \<Rightarrow> ''RCC'' | GI \<Rightarrow> ''GI'' | Asbestos \<Rightarrow> ''Asbestos'' | Tiles \<Rightarrow> ''Tiles'')"

definition rainfallAdequacy :: "CityData \<Rightarrow> feasibilityState \<Rightarrow> feasibilityState" where
  "rainfallAdequacy cityData = (\<lambda>(score, recs, warns).
     if annualRainfall cityData > 1000 then
       (score + 25, recs @ [''Excellent rainfall - consider larger storage capacity''], warns)
     else if annualRainfall cityData > 600 then
       (score + 15, recs @ [''Good rainfall - standard system recommended''], warns)
     else
       (score + 5, recs, warns @ [''Low rainfall area - consider supplementary water sources'']))"

definition roofSuitability :: "UserInput \<Rightarrow> feasibilityState \<Rightarrow> feasibilityState" where
  "roofSuitability userInput = (\<lambda>(score, recs, warns).
     if roofType userInput = RCC \<or> roofType userInput = GI then
       (score + 20,
        recs @ [roofTypeName (roofType userInput) @ '' roof is excellent for rainwater harvesting''],
        warns)
     else if roofType userInput = Tiles then
       (score + 15,
        recs @ [''Clay/concrete tiles are suitable with proper first flush diverter''], warns)
     else
       (score + 10, recs, warns @ [''Asbestos roofs require regular cleaning and filtration'']))"

definition soilConditions :: "UserInput \<Rightarrow> feasibilityState \<Rightarrow> feasibilityState" where
  "soilConditions userInput = (\<lambda>(score, recs, warns).
     if soilType userInput = Sandy then
       (score + 15, recs @ [''Sandy soil is ideal for groundwater recharge''], warns)
     else if soilType userInput = Loamy then
       (score + 10, recs @ [''Loamy soil provides good infiltration for recharge''], warns)
     else
       (score + 5, recs @ [''Clayey soil requires larger recharge structures''], warns))"

definition groundwaterDepthBand :: "UserInput \<Rightarrow> feasibilityState \<Rightarrow> feasibilityState" where
  "groundwaterDepthBand userInput = (\<lambda>(score, recs, warns).
     if groundwaterDepth userInput > 3 \<and> groundwaterDepth userInput < 30 then
       (score + 15, recs @ [''Optimal groundwater depth for recharge systems''], warns)
     else if groundwaterDepth userInput \<le> 3 then
       (score + 5, recs,
        warns @ [''Shallow groundwater - ensure proper drainage to prevent waterlogging''])
     else
       (score + 10, recs,
        warns @ [''Deep groundwater - recharge benefits may take longer to realize'']))"

definition coverageAnalysis :: "real \<Rightarrow> real \<Rightarrow> feasibilityState \<Rightarrow> feasibilityState" where
  "coverageAnalysis rainwaterPotential' householdDemand' = (\<lambda>(score, recs, warns).
     let coverage = js_times (js_div rainwaterPotential' householdDemand') 100 in
     if js_gt coverage 80 then
       (score + 10,
        recs @ [''Excellent coverage - consider selling excess water or larger recharge''], warns)
     else if js_gt coverage 50 then
       (score + 7,
        recs @ [''Good coverage - system will significantly reduce water bills''], warns)
     else
       (score + 3,
        recs @ [''Partial coverage - combine with water conservation measures''], warns))"

definition environmentalFactors :: "UserInput \<Rightarrow> feasibilityState \<Rightarrow> feasibilityState" where
  "environmentalFactors userInput = (\<lambda>(score, recs, warns).
     let warns =
           (if birdNesting userInput then
              warns @ [''Bird nesting detected - install mesh covers and regular cleaning required'']
            else warns);
         warns =
           (if environment userInput = EnvIndustrial then
              warns @ [''Industrial area - test water quality regularly and use appropriate filtration'']
            else warns)
     in (score, recs, warns))"

definition monsoonDependency :: "CityData \<Rightarrow> feasibilityState \<Rightarrow> feasibilityState" where
  "monsoonDependency cityData = (\<lambda>(score, recs, warns).
     let monsoonMonths = take (9 - 5) (drop 5 (monthlyRainfall cityData));
         monsoonRainfall = foldl (\<lambda>sum month. sum + month) 0 monsoonMonths
     in if js_gt (js_div monsoonRainfall (annualRainfall cityData)) 0.7 then
          (score, recs, warns @ [''High monsoon dependency - 70%+ rainfall in 4 months''])
        else (score, recs, warns))"

definition standardRecommendations :: "UserInput \<Rightarrow> feasibilityState \<Rightarrow> feasibilityState" where
  "standardRecommendations userInput = (\<lambda>(score, recs, warns).
     let recs = recs @ [''Install first flush diverter to improve water quality''];
         recs =
           (if purpose userInput = Domestic then
              recs @ [''Consider UV/RO purification for drinking water use'']
            else recs);
         recs =
           (if hasOpenSpace userInput then
              recs @ [''Connect overflow to recharge pit for maximum benefit'']
            else recs)
     in (score, recs, warns))"

record Feasibility =
  feasibilityScore' :: real
  feasibilityLevel' :: Level
  recommendations' :: "string list"
  warnings' :: "string list"

definition calculateFeasibility ::
  "UserInput \<Rightarrow> CityData \<Rightarrow> real \<Rightarrow> real \<Rightarrow> Feasibility" where
  "calculateFeasibility userInput cityData rainwaterPotential' householdDemand' =
     (let st = (50, [], []);
          st = rainfallAdequacy cityData st;
          st = roofSuitability userInput st;
          st = soilConditions userInput st;
          st = groundwaterDepthBand userInput st;
          st = coverageAnalysis rainwaterPotential' householdDemand' st;
          st = environmentalFactors userInput st;
          st = monsoonDependency cityData st;
          st = standardRecommendations userInput st
      in (case st of (score, recs, warns) \<Rightarrow>
            \<lparr>feasibilityScore' = min 100 score,
             feasibilityLevel' = (if score \<ge> 80 then High else if score \<ge> 60 then Medium else Low),
             recommendations' = recs,
             warnings' = warns\<rparr>))"

subsection \<open>Main calculation\<close>

datatype error = CityDataNotFound string

definition calculate ::
  "CityData list \<Rightarrow> Coefficients \<Rightarrow> UserInput \<Rightarrow> CalculationType \<Rightarrow> error + CalculationResults" where
  "calculate cities coefficients userInput calculationType =
     (case findCityData cities (location userInput) (pincode userInput) of
        None \<Rightarrow>
          Inl (CityDataNotFound
                (''City data not found for '' @ location userInput @ '', '' @ pincode userInput))
      | Some cityData \<Rightarrow>
          (let potential = calculateRainwaterPotential coefficients userInput cityData;
               rainwaterPotential' = annual potential;
               monthlyPotential' = monthly potential;
               householdDemand' = calculateHouseholdDemand coefficients userInput;
               coveragePercentage' =
                 js_min (Fin 100)
                   (js_round (js_times (js_div rainwaterPotential' householdDemand') 100));
               firstFlush' = Math_round (roofArea userInput * 2);
               tank = calculateStorageTank rainwaterPotential' monthlyPotential' householdDemand';
               costs = calculateCosts coefficients userInput (capacity tank)
                         (calculationType = Recharge);
               feasibility =
                 calculateFeasibility userInput cityData rainwaterPotential' householdDemand';
               results =
                 \<lparr>rainwaterPotential = rainwaterPotential',
                  monthlyPotential = monthlyPotential',
                  householdDemand = householdDemand',
                  coveragePercentage = coveragePercentage',
                  firstFlush = firstFlush',
                  tankCapacity = capacity tank,
                  tankDimensions = dimensions tank,
                  rechargeVolume = None,
                  pitDimensions = None,
                  systemCost = systemCost' costs,
                  annualSavings = annualSavings' costs,
                  paybackPeriod = paybackPeriod' costs,
                  feasibilityScore = feasibilityScore' feasibility,
                  feasibilityLevel = feasibilityLevel' feasibility,
                  recommendations = recommendations' feasibility,
                  warnings = warnings' feasibility\<rparr>
           in if calculationType = Recharge then
                (let recharge =
                       calculateRechargeSystem coefficients userInput rainwaterPotential' cityData
                 in Inr (results\<lparr>rechargeVolume := Some (rechargeVolume' recharge),
                                  pitDimensions := Some (pitDimensions' recharge)\<rparr>))
              else Inr results))"

section \<open>Auxiliary definitions\<close>

text \<open>The three variables of \<open>calculateFeasibility\<close> after its last block.\<close>

definition feasibilityFinal :: "UserInput \<Rightarrow> CityData \<Rightarrow> real \<Rightarrow> real \<Rightarrow> feasibilityState" where
  "feasibilityFinal u c rp dm =
     standardRecommendations u (monsoonDependency c (environmentalFactors u
       (coverageAnalysis rp dm (groundwaterDepthBand u (soilConditions u
         (roofSuitability u (rainfallAdequacy c (50, [], []))))))))"

text \<open>
  The result record of \<open>calculate\<close> for a resolved city, field by field.
\<close>

definition resultsFor :: "Coefficients \<Rightarrow> UserInput \<Rightarrow> CalculationType \<Rightarrow> CityData \<Rightarrow> CalculationResults" where
  "resultsFor co u t c =
     \<lparr>rainwaterPotential = annual (calculateRainwaterPotential co u c),
      monthlyPotential = monthly (calculateRainwaterPotential co u c),
      householdDemand = calculateHouseholdDemand co u,
      coveragePercentage =
        js_min (Fin 100)
          (js_round (js_times (js_div (annual (calculateRainwaterPotential co u c))
             (calculateHouseholdDemand co u)) 100)),
      firstFlush = Math_round (roofArea u * 2),
      tankCapacity =
        capacity (calculateStorageTank (annual (calculateRainwaterPotential co u c))
          (monthly (calculateRainwaterPotential co u c)) (calculateHouseholdDemand co u)),
      tankDimensions =
        dimensions (calculateStorageTank (annual (calculateRainwaterPotential co u c))
          (monthly (calculateRainwaterPotential co u c)) (calculateHouseholdDemand co u)),
      rechargeVolume =
        (if t = Recharge
         then Some (rechargeVolume' (calculateRechargeSystem co u
                      (annual (calculateRainwaterPotential co u c)) c))
         else None),
      pitDimensions =
        (if t = Recharge
         then Some (pitDimensions' (calculateRechargeSystem co u
                      (annual (calculateRainwaterPotential co u c)) c))
         else None),
      systemCost =
        systemCost' (calculateCosts co u
          (capacity (calculateStorageTank (annual (calculateRainwaterPotential co u c))
             (monthly (calculateRainwaterPotential co u c)) (calculateHouseholdDemand co u)))
          (t = Recharge)),
      annualSavings =
        annualSavings' (calculateCosts co u
          (capacity (calculateStorageTank (annual (calculateRainwaterPotential co u c))
             (monthly (calculateRainwaterPotential co u c)) (calculateHouseholdDemand co u)))
          (t = Recharge)),
      paybackPeriod =
        paybackPeriod' (calculateCosts co u
          (capacity (calculateStorageTank (annual (calculateRainwaterPotential co u c))
             (monthly (calculateRainwaterPotential co u c)) (calculateHouseholdDemand co u)))
          (t = Recharge)),
      feasibilityScore =
        feasibilityScore' (calculateFeasibility u c
          (annual (calculateRainwaterPotential co u c)) (calculateHouseholdDemand co u)),
      feasibilityLevel =
        feasibilityLevel' (calculateFeasibility u c
          (annual (calculateRainwaterPotential co u c)) (calculateHouseholdDemand co u)),
      recommendations =
        recommendations' (calculateFeasibility u c
          (annual (calculateRainwaterPotential co u c)) (calculateHouseholdDemand co u)),
      warnings =
        warnings' (calculateFeasibility u c
          (annual (calculateRainwaterPotential co u c)) (calculateHouseholdDemand co u))\<rparr>"



section \<open>The formulas of the specification\<close>

text \<open>The capacity as section 4.4 of the specification words it.\<close>

definition spec_tankCapacity :: "real \<Rightarrow> real \<Rightarrow> real" where
  "spec_tankCapacity demand potential =
     max (Min {Math_round (demand / 365 * 35), Math_round (0.2 * potential), 15000}) 2000"


text \<open>
  City resolution as section 4.1 words it: the pincode match, else the name match, else
  the fallback city, else the first entry of the table.
\<close>

definition spec_pincodeMatch :: "string \<Rightarrow> CityData \<Rightarrow> bool" where
  "spec_pincodeMatch pin c = prefix (take 3 pin) (cityPincode c)"

definition spec_nameMatch :: "string \<Rightarrow> CityData \<Rightarrow> bool" where
  "spec_nameMatch loc c =
     (sublist (toLowerCase loc) (toLowerCase (city c)) \<or>
      sublist (toLowerCase (city c)) (toLowerCase loc) \<or>
      sublist (toLowerCase loc) (toLowerCase (state c)))"

definition spec_resolveCity :: "CityData list \<Rightarrow> string \<Rightarrow> string \<Rightarrow> CityData option" where
  "spec_resolveCity cities loc pin =
     (case List.find (spec_pincodeMatch pin) cities of
        Some c \<Rightarrow> Some c
      | None \<Rightarrow>
         (case List.find (spec_nameMatch loc) cities of
            Some c \<Rightarrow> Some c
          | None \<Rightarrow>
             (case List.find (\<lambda>c. city c = ''Delhi'') cities of
                Some c \<Rightarrow> Some c
              | None \<Rightarrow> (if cities = [] then None else Some (hd cities)))))"

text \<open>
  The diameter of a cylinder of height 2 m that holds the given capacity in liters,
  rounded to one decimal (section 4.4).
\<close>

definition spec_tankDiameter :: "real \<Rightarrow> jsnum" where
  "spec_tankDiameter cap = js_toFixed1 (js_sqrt (Fin (4 * (cap / 1000) / (pi * 2))))"





section \<open>Example tables and inputs\<close>

definition exampleDelhi :: CityData where
  "exampleDelhi =
     \<lparr>city = ''Delhi'', state = ''Delhi'', cityPincode = ''110001'',
      monthlyRainfall = [19, 20, 15, 21, 25, 70, 237, 235, 113, 17, 9, 9],
      annualRainfall = 790, cityGroundwaterDepth = 20,
      aquiferType = Alluvial, region = North\<rparr>"

definition exampleChennai :: CityData where
  "exampleChennai =
     \<lparr>city = ''Chennai'', state = ''Tamil Nadu'', cityPincode = ''600001'',
      monthlyRainfall = [25, 7, 4, 15, 45, 55, 100, 140, 140, 305, 350, 140],
      annualRainfall = 1326, cityGroundwaterDepth = 6,
      aquiferType = Coastal, region = South\<rparr>"

definition exampleCity :: CityData where
  "exampleCity =
     \<lparr>city = ''Mumbai'', state = ''Maharashtra'', cityPincode = ''400001'',
      monthlyRainfall = [0, 0, 0, 2, 18, 500, 840, 585, 341, 89, 12, 2],
      annualRainfall = 2389, cityGroundwaterDepth = 8,
      aquiferType = Coastal, region = West\<rparr>"

definition exampleCities :: "CityData list" where
  "exampleCities = [exampleChennai, exampleDelhi, exampleCity]"

definition exampleDryCity :: CityData where
  "exampleDryCity =
     \<lparr>city = ''Jaisalmer'', state = ''Rajasthan'', cityPincode = ''345001'',
      monthlyRainfall = [0, 0, 0, 0, 0, 12.5, 112.5, 125, 62.5, 0, 0, 0],
      annualRainfall = 312.5, cityGroundwaterDepth = 40,
      aquiferType = Desert, region = West\<rparr>"

definition exampleSmallInput :: UserInput where
  "exampleSmallInput =
     \<lparr>name = ''Ravi'', location = ''Jaisalmer'', pincode = ''345001'',
      roofArea = 10, roofType = RCC, environment = Residential, birdNesting = False,
      dwellers = 1, purpose = Domestic, hasOpenSpace = False, openSpaceArea = None,
      groundwaterDepth = 40, soilType = Sandy, budget = Low\<rparr>"

definition exampleCoefficients :: Coefficients where
  "exampleCoefficients =
     \<lparr>runoffCoefficients =
        (\<lambda>t. case t of RCC \<Rightarrow> 0.8 | GI \<Rightarrow> 0.9 | Asbestos \<Rightarrow> 0.7 | Tiles \<Rightarrow> 0.75),
      infiltrationRates = (\<lambda>t. case t of Sandy \<Rightarrow> 30 | Loamy \<Rightarrow> 15 | Clayey \<Rightarrow> 5),
      costFactors =
        \<lparr>baseCostPerSqm = 300,
         budgetMultipliers = (\<lambda>b. case b of Low \<Rightarrow> 0.8 | Medium \<Rightarrow> 1 | High \<Rightarrow> 1.3)\<rparr>,
      waterRates = \<lparr>municipalRate = 0.02, domesticConsumption = 135\<rparr>\<rparr>"

definition exampleInput :: UserInput where
  "exampleInput =
     \<lparr>name = ''Asha'', location = ''Mumbai'', pincode = ''400012'',
      roofArea = 100, roofType = RCC, environment = Residential, birdNesting = False,
      dwellers = 4, purpose = Domestic, hasOpenSpace = True, openSpaceArea = Some 20,
      groundwaterDepth = 8, soilType = Loamy, budget = Medium\<rparr>"

section \<open>Properties\<close>

subsection \<open>Built-ins\<close>

lemma foldl_plus_sum_list: "foldl (\<lambda>sum month. sum + month) a xs = a + sum_list (xs :: real list)"
  by (induction xs arbitrary: a) simp_all

lemma Math_round_nonneg: "0 \<le> x \<Longrightarrow> 0 \<le> Math_round x"
  by (simp add: Math_round_def)


subsection \<open>Rainwater potential\<close>



subsection \<open>Feasibility\<close>

lemma rainfallAdequacy_score:
  "fst st + 5 \<le> fst (rainfallAdequacy c st) \<and> fst (rainfallAdequacy c st) \<le> fst st + 25"
  by (cases st) (simp add: rainfallAdequacy_def)

lemma roofSuitability_score:
  "fst st + 10 \<le> fst (roofSuitability u st) \<and> fst (roofSuitability u st) \<le> fst st + 20"
  by (cases st) (simp add: roofSuitability_def)

lemma soilConditions_score:
  "fst st + 5 \<le> fst (soilConditions u st) \<and> fst (soilConditions u st) \<le> fst st + 15"
  by (cases st) (simp add: soilConditions_def)

lemma groundwaterDepthBand_score:
  "fst st + 5 \<le> fst (groundwaterDepthBand u st)
   \<and> fst (groundwaterDepthBand u st) \<le> fst st + 15"
  by (cases st) (simp add: groundwaterDepthBand_def)

lemma coverageAnalysis_score:
  "fst st + 3 \<le> fst (coverageAnalysis rp dm st)
   \<and> fst (coverageAnalysis rp dm st) \<le> fst st + 10"
  by (cases st) (simp add: coverageAnalysis_def Let_def)

lemma environmentalFactors_score: "fst (environmentalFactors u st) = fst st"
  by (cases st) (simp add: environmentalFactors_def Let_def)

lemma monsoonDependency_score: "fst (monsoonDependency c st) = fst st"
  by (cases st) (simp add: monsoonDependency_def Let_def)

lemma standardRecommendations_score: "fst (standardRecommendations u st) = fst st"
  by (cases st) (simp add: standardRecommendations_def Let_def)

text \<open>
  Each scoring block adds at least its smallest and at most its largest weight, and the
  last three blocks leave the score alone: before the cap it is between 78 and 135.
\<close>

lemma feasibilityFinal_score:
  "78 \<le> fst (feasibilityFinal u c rp dm) \<and> fst (feasibilityFinal u c rp dm) \<le> 135"
  unfolding feasibilityFinal_def
  using rainfallAdequacy_score [of "(50, [], [])" c]
    roofSuitability_score [of "rainfallAdequacy c (50, [], [])" u]
    soilConditions_score [of "roofSuitability u (rainfallAdequacy c (50, [], []))" u]
    groundwaterDepthBand_score
      [of "soilConditions u (roofSuitability u (rainfallAdequacy c (50, [], [])))" u]
    coverageAnalysis_score
      [of "groundwaterDepthBand u (soilConditions u (roofSuitability u
             (rainfallAdequacy c (50, [], []))))" rp dm]
  by (simp add: environmentalFactors_score monsoonDependency_score
      standardRecommendations_score)

lemma calculateFeasibility_final:
  "calculateFeasibility u c rp dm =
     (case feasibilityFinal u c rp dm of (score, recs, warns) \<Rightarrow>
        \<lparr>feasibilityScore' = min 100 score,
         feasibilityLevel' = (if score \<ge> 80 then High else if score \<ge> 60 then Medium else Low),
         recommendations' = recs, warnings' = warns\<rparr>)"
  by (simp add: calculateFeasibility_def feasibilityFinal_def Let_def)

text \<open>
  C3: the feasibility score lies between 0 and 100, and the level is High exactly when
  the score is at least 80, Medium exactly when it is at least 60 and below 80, and Low
  exactly when it is below 60.
\<close>

theorem C3_feasibility_score_level:
  "0 \<le> feasibilityScore' (calculateFeasibility u c rp dm)
   \<and> feasibilityScore' (calculateFeasibility u c rp dm) \<le> 100
   \<and> (feasibilityLevel' (calculateFeasibility u c rp dm) = High
        \<longleftrightarrow> 80 \<le> feasibilityScore' (calculateFeasibility u c rp dm))
   \<and> (feasibilityLevel' (calculateFeasibility u c rp dm) = Medium
        \<longleftrightarrow> 60 \<le> feasibilityScore' (calculateFeasibility u c rp dm)
            \<and> feasibilityScore' (calculateFeasibility u c rp dm) < 80)
   \<and> (feasibilityLevel' (calculateFeasibility u c rp dm) = Low
        \<longleftrightarrow> feasibilityScore' (calculateFeasibility u c rp dm) < 60)"
  using feasibilityFinal_score [of u c rp dm]
  by (cases "feasibilityFinal u c rp dm") (auto simp add: calculateFeasibility_final)

text \<open>
  C10: the feasibility score is at least 78, the base of 50 plus the smallest weight of
  each of the five scoring blocks, and the level is never Low.
\<close>

theorem C10_feasibility_at_least_78:
  "78 \<le> feasibilityScore' (calculateFeasibility u c rp dm)
   \<and> feasibilityLevel' (calculateFeasibility u c rp dm) \<noteq> Low"
  using feasibilityFinal_score [of u c rp dm]
  by (cases "feasibilityFinal u c rp dm") (auto simp add: calculateFeasibility_final)

subsection \<open>Tank capacity\<close>

text \<open>
  C1: the returned tank capacity is the maximum of 2000 and the minimum of 35 days of
  demand (rounded), 20 percent of the annual potential (rounded) and 15000; it lies
  between 2000 and 15000 liters.
\<close>

theorem C1_tank_capacity:
  "capacity (calculateStorageTank potential months demand) = spec_tankCapacity demand potential
   \<and> 2000 \<le> capacity (calculateStorageTank potential months demand)
   \<and> capacity (calculateStorageTank potential months demand) \<le> 15000"
  by (simp add: calculateStorageTank_def spec_tankCapacity_def Let_def min.assoc mult.commute)

text \<open>
  C2 (a defect of the code): the diameter is computed from the capacity before the floor
  of 2000 liters is applied. For an annual potential of 2500 liters and a demand of
  49275 liters the returned capacity is 2000 liters, the returned diameter is at most
  0.7 m, and a cylinder of height 2 m holding 2000 liters has a diameter of at least
  1 m.
\<close>

lemma calculateStorageTank_small: "calculateStorageTank 2500 months 49275 =
   \<lparr>capacity = 2000, dimensions = \<lparr>diameter = Fin (toFixed1 (sqrt (1 / pi))), height = 2\<rparr>\<rparr>"
  by (simp add: calculateStorageTank_def Let_def Math_round_def)

lemma toFixed1_inv_pi: "toFixed1 (sqrt (1 / pi)) \<le> 0.7"
proof -
  have "sqrt (1 / pi) \<le> sqrt (1 / 2)"
    using pi_ge_two by (simp add: frac_le)
  also have "sqrt (1 / 2) \<le> 18 / 25"
    by (rule real_le_lsqrt) (simp_all add: power2_eq_square)
  finally have "sqrt (1 / pi) * 10 + 1 / 2 < 8" by linarith
  then have "\<lfloor>sqrt (1 / pi) * 10 + 1 / 2\<rfloor> \<le> 7"
    by (simp add: floor_le_iff)
  then have "real_of_int \<lfloor>sqrt (1 / pi) * 10 + 1 / 2\<rfloor> \<le> 7"
    by linarith
  moreover have "\<not> sqrt (1 / pi) < 0" by simp
  ultimately show ?thesis by (simp add: toFixed1_def)
qed

lemma spec_tankDiameter_2000: "spec_tankDiameter 2000 = Fin (toFixed1 (sqrt (4 / pi))) \<and> 1 \<le> toFixed1 (sqrt (4 / pi))"
proof -
  have "1 \<le> sqrt (4 / pi)"
    using pi_less_4 by (simp add: )
  then have "10 \<le> sqrt (4 / pi) * 10 + 1 / 2" by linarith
  then have "10 \<le> \<lfloor>sqrt (4 / pi) * 10 + 1 / 2\<rfloor>"
    by (simp add: le_floor_iff)
  then have "10 \<le> real_of_int \<lfloor>sqrt (4 / pi) * 10 + 1 / 2\<rfloor>"
    by linarith
  moreover have "\<not> sqrt (4 / pi) < 0" by simp
  ultimately have "1 \<le> toFixed1 (sqrt (4 / pi))" by (simp add: toFixed1_def)
  then show ?thesis by (simp add: spec_tankDiameter_def)
qed

theorem C2_diameter_ignores_capacity_floor:
  "capacity (calculateStorageTank 2500 [0, 0, 0, 0, 0, 100, 900, 1000, 500, 0, 0, 0] 49275) = 2000
   \<and> (\<exists>d. diameter (dimensions (calculateStorageTank 2500 [0, 0, 0, 0, 0, 100, 900, 1000, 500, 0, 0, 0] 49275)) = Fin d \<and> d \<le> 0.7)
   \<and> (\<exists>d. spec_tankDiameter (capacity (calculateStorageTank 2500 [0, 0, 0, 0, 0, 100, 900, 1000, 500, 0, 0, 0] 49275)) = Fin d \<and> 1 \<le> d)
   \<and> diameter (dimensions (calculateStorageTank 2500 [0, 0, 0, 0, 0, 100, 900, 1000, 500, 0, 0, 0] 49275))
       \<noteq> spec_tankDiameter (capacity (calculateStorageTank 2500 [0, 0, 0, 0, 0, 100, 900, 1000, 500, 0, 0, 0] 49275))"
  using toFixed1_inv_pi spec_tankDiameter_2000 by (simp add: calculateStorageTank_small)

text \<open>
  Where the floor does not act, the height is 2 m and the diameter is the one of the
  returned capacity.
\<close>

lemma tank_dimensions_above_floor:
  "height (dimensions (calculateStorageTank potential months demand)) = 2
   \<and> (2000 \<le> min (min (Math_round ((demand / 365) * 35)) (Math_round (potential * 0.2))) 15000 \<longrightarrow>
     diameter (dimensions (calculateStorageTank potential months demand)) = spec_tankDiameter (capacity (calculateStorageTank potential months demand)))"
proof -
  define t where "t = min (min (Math_round ((demand / 365) * 35)) (Math_round (potential * 0.2))) 15000"
  have tank: "calculateStorageTank potential months demand =
      \<lparr>capacity = max t 2000,
       dimensions = \<lparr>diameter = js_toFixed1 (js_sqrt (Fin ((t / 1000 * 4) / (pi * 2)))), height = 2\<rparr>\<rparr>"
    unfolding t_def calculateStorageTank_def Let_def by (rule refl)
  have "max t 2000 = t" if "2000 \<le> t"
    using that by simp
  then show ?thesis
    unfolding t_def [symmetric] tank spec_tankDiameter_def
    by (simp add: mult.commute)
qed

subsection \<open>City resolution and the failure of \<open>calculate\<close>\<close>

lemma findCityData_spec: "findCityData cities loc pin = spec_resolveCity cities loc pin"
proof -
  have p: "(\<lambda>c. startsWith (cityPincode c) (substring0 pin 3)) = spec_pincodeMatch pin"
    by (simp add: fun_eq_iff spec_pincodeMatch_def startsWith_def substring0_def)
  have n: "(\<lambda>c. includes_str (toLowerCase (city c)) (toLowerCase loc) \<or>
                includes_str (toLowerCase loc) (toLowerCase (city c)) \<or>
                includes_str (toLowerCase (state c)) (toLowerCase loc)) = spec_nameMatch loc"
    by (simp add: fun_eq_iff spec_nameMatch_def includes_str_def)
  show ?thesis
    unfolding findCityData_def Let_def p n spec_resolveCity_def
    by (simp split: option.splits list.splits)
qed

lemma find_Some_mem: "List.find P xs = Some x \<Longrightarrow> x \<in> set xs"
  by (auto simp add: find_Some_iff)

lemma findCityData_None: "findCityData cities loc pin = None \<longleftrightarrow> cities = []"
  by (auto simp add: findCityData_def Let_def split: option.splits list.splits)

lemma findCityData_mem: "findCityData cities loc pin = Some c \<Longrightarrow> c \<in> set cities"
  by (auto simp add: findCityData_def Let_def split: option.splits list.splits if_splits
      dest: find_Some_mem)

lemma calculate_resultsFor:
  "calculate cities co u t =
     (case findCityData cities (location u) (pincode u) of
        None \<Rightarrow> Inl (CityDataNotFound
                (''City data not found for '' @ location u @ '', '' @ pincode u))
      | Some c \<Rightarrow> Inr (resultsFor co u t c))"
  unfolding calculate_def resultsFor_def Let_def
  by (cases t; cases "findCityData cities (location u) (pincode u)") simp_all

lemma calculate_Inr:
  "calculate cities co u t = Inr r \<longleftrightarrow>
     (\<exists>c. findCityData cities (location u) (pincode u) = Some c \<and> r = resultsFor co u t c)"
  by (auto simp add: calculate_resultsFor split: option.splits)

text \<open>
  C9: city resolution is the pincode match, else the name match, else the fallback city
  Delhi, else the first entry of the table; it returns a record of the table whenever the
  table is not empty; \<open>calculate\<close> fails exactly when the table is empty, and returns a
  result otherwise.
\<close>

theorem C9_city_resolution:
  "findCityData cities loc pin = spec_resolveCity cities loc pin
   \<and> (cities \<noteq> [] \<longrightarrow> (\<exists>c. findCityData cities loc pin = Some c \<and> c \<in> set cities))
   \<and> ((\<exists>e. calculate cities co u t = Inl e) \<longleftrightarrow> cities = [])
   \<and> (cities \<noteq> [] \<longrightarrow> (\<exists>r. calculate cities co u t = Inr r))"
proof -
  have some: "\<exists>c. findCityData cities l p = Some c \<and> c \<in> set cities" if "cities \<noteq> []" for l p
    using that findCityData_None [of cities l p] findCityData_mem [of cities l p] by auto
  have "(\<exists>e. calculate cities co u t = Inl e) \<longleftrightarrow> cities = []"
    using findCityData_None [of cities "location u" "pincode u"]
    by (auto simp add: calculate_resultsFor split: option.splits)
  moreover have "\<exists>r. calculate cities co u t = Inr r" if "cities \<noteq> []"
    using some [OF that, of "location u" "pincode u"] by (auto simp add: calculate_resultsFor)
  ultimately show ?thesis
    using some [of loc pin] findCityData_spec [of cities loc pin] by blast
qed

subsection \<open>Recharge fields\<close>

text \<open>
  C7: a result of \<open>calculate\<close> in recharge mode has the fields
  \<open>rechargeVolume\<close> and \<open>pitDimensions\<close>, a result in rainwater mode has
  neither; with a non-empty city table both modes return a result.
\<close>

theorem C7_recharge_fields:
  "(calculate cities co u Recharge = Inr r \<longrightarrow> rechargeVolume r \<noteq> None \<and> pitDimensions r \<noteq> None)
   \<and> (calculate cities co u Rainwater = Inr r \<longrightarrow> rechargeVolume r = None \<and> pitDimensions r = None)
   \<and> (cities \<noteq> [] \<longrightarrow> (\<exists>r. calculate cities co u Recharge = Inr r) \<and> (\<exists>r. calculate cities co u Rainwater = Inr r))"
proof -
  have "rechargeVolume (resultsFor co u Recharge c) \<noteq> None" 
    "pitDimensions (resultsFor co u Recharge c) \<noteq> None" 
    "rechargeVolume (resultsFor co u Rainwater c) = None" 
    "pitDimensions (resultsFor co u Rainwater c) = None" for c
    by (simp_all add: resultsFor_def)
  moreover have "\<exists>c. findCityData cities (location u) (pincode u) = Some c" if "cities \<noteq> []"
    using that findCityData_None [of cities "location u" "pincode u"] by auto
  ultimately show ?thesis
    by (auto simp add: calculate_Inr)
qed

subsection \<open>Coverage\<close>





subsection \<open>Savings and payback\<close>

lemma paybackPeriod_nonneg:
  assumes "0 \<le> roofArea u" and "0 \<le> cap" and "0 \<le> baseCostPerSqm (costFactors co)"
    and "0 \<le> budgetMultipliers (costFactors co) Medium"
  shows "0 \<le> paybackPeriod' (calculateCosts co u cap rech)"
proof -
  let ?total = "roofArea u * baseCostPerSqm (costFactors co) + cap * 0.8
      + (if rech then roofArea u * 150 else 0)"
  let ?medium = "Math_round (?total * budgetMultipliers (costFactors co) Medium)"
  let ?savings = "annualSavings' (calculateCosts co u cap rech)"
  have "0 \<le> ?total" using assms by simp
  then have "0 \<le> ?medium"
    using assms(4) by (intro Math_round_nonneg mult_nonneg_nonneg)
  then have "0 \<le> ?medium / max ?savings 1"
    by simp
  then have "0 \<le> Math_round (?medium / max ?savings 1)"
    by (rule Math_round_nonneg)
  then show ?thesis
    by (simp add: calculateCosts_def Let_def)
qed

text \<open>
  C6: the annual savings are the rounded product of the municipal rate and the minimum
  of the household demand and ten tank capacities; the payback period is the rounded
  quotient of the medium-tier cost by the maximum of the savings and 1, capped at 20; it
  is at most 20, and at least 0 when roof area, tank capacity, base cost and medium
  multiplier are not negative.
\<close>

theorem C6_savings_payback:
  "annualSavings' (calculateCosts co u cap rech) =
     Math_round (min (calculateHouseholdDemand co u) (10 * cap) * municipalRate (waterRates co))
   \<and> paybackPeriod' (calculateCosts co u cap rech) =
       min (Math_round (medium (systemCost' (calculateCosts co u cap rech))
                        / max (annualSavings' (calculateCosts co u cap rech)) 1)) 20
   \<and> paybackPeriod' (calculateCosts co u cap rech) \<le> 20
   \<and> (0 \<le> roofArea u \<and> 0 \<le> cap \<and> 0 \<le> baseCostPerSqm (costFactors co)
        \<and> 0 \<le> budgetMultipliers (costFactors co) Medium
       \<longrightarrow> 0 \<le> paybackPeriod' (calculateCosts co u cap rech))"
  using paybackPeriod_nonneg [of u cap co rech]
  by (simp add: calculateCosts_def Let_def mult.commute)

subsection \<open>Recharge system\<close>




subsection \<open>The result record\<close>

lemma userInputSchema_bounds:
  "userInputSchema u \<Longrightarrow> 1 \<le> roofArea u \<and> 1 \<le> dwellers u \<and> 0 \<le> groundwaterDepth u"
  by (simp add: userInputSchema_def)


text \<open>
  The ranges of the fields of a result of \<open>calculate\<close>, for an input that passed the
  schema and cost factors that are not negative.
\<close>

lemma calculateStorageTank_capacity_range:
  "2000 \<le> capacity (calculateStorageTank potential months demand)
   \<and> capacity (calculateStorageTank potential months demand) \<le> 15000"
  by (simp add: calculateStorageTank_def Let_def)

lemma calculateFeasibility_score_range:
  "78 \<le> feasibilityScore' (calculateFeasibility u c rp dm)
   \<and> feasibilityScore' (calculateFeasibility u c rp dm) \<le> 100
   \<and> feasibilityLevel' (calculateFeasibility u c rp dm) \<noteq> Low"
  using feasibilityFinal_score [of u c rp dm]
  by (cases "feasibilityFinal u c rp dm") (auto simp add: calculateFeasibility_final)

lemma paybackPeriod_le_20: "paybackPeriod' (calculateCosts co u cap rech) \<le> 20"
  by (simp add: calculateCosts_def Let_def)

lemma calculate_result_ranges:
  assumes "calculate cities co u t = Inr r" and "userInputSchema u"
    and "0 \<le> baseCostPerSqm (costFactors co)"
    and "0 \<le> budgetMultipliers (costFactors co) Medium"
  shows "2000 \<le> tankCapacity r \<and> tankCapacity r \<le> 15000"
    and "78 \<le> feasibilityScore r \<and> feasibilityScore r \<le> 100 \<and> feasibilityLevel r \<noteq> Low"
    and "0 \<le> paybackPeriod r \<and> paybackPeriod r \<le> 20"
    and "rainwaterPotential r = sum_list (monthlyPotential r)"
proof -
  from assms(1) obtain c where r: "r = resultsFor co u t c"
    by (auto simp add: calculate_Inr)
  let ?tank = "calculateStorageTank (annual (calculateRainwaterPotential co u c))
      (monthly (calculateRainwaterPotential co u c)) (calculateHouseholdDemand co u)"
  have cap: "tankCapacity r = capacity ?tank"
    by (simp add: r resultsFor_def)
  show "2000 \<le> tankCapacity r \<and> tankCapacity r \<le> 15000"
    unfolding cap by (rule calculateStorageTank_capacity_range)
  show "78 \<le> feasibilityScore r \<and> feasibilityScore r \<le> 100 \<and> feasibilityLevel r \<noteq> Low"
    using calculateFeasibility_score_range
      [of u c "annual (calculateRainwaterPotential co u c)" "calculateHouseholdDemand co u"]
    by (simp add: r resultsFor_def)
  have "0 \<le> roofArea u" using assms(2) by (simp add: userInputSchema_def)
  moreover have "0 \<le> capacity ?tank"
    using calculateStorageTank_capacity_range
      [of "annual (calculateRainwaterPotential co u c)"
          "monthly (calculateRainwaterPotential co u c)" "calculateHouseholdDemand co u"]
    by simp
  ultimately have "0 \<le> paybackPeriod' (calculateCosts co u (capacity ?tank) (t = Recharge))"
    using assms(3,4) by (intro paybackPeriod_nonneg)
  then show "0 \<le> paybackPeriod r \<and> paybackPeriod r \<le> 20"
    using paybackPeriod_le_20 [of co u "capacity ?tank" "t = Recharge"]
    by (simp add: r resultsFor_def)
  show "rainwaterPotential r = sum_list (monthlyPotential r)"
    by (simp add: r resultsFor_def calculateRainwaterPotential_def Let_def foldl_plus_sum_list)
qed

section \<open>The engine on the example tables\<close>

lemmas example_defs = exampleCities_def exampleChennai_def exampleDelhi_def exampleCity_def
  exampleCoefficients_def exampleInput_def

lemma example_schema: "userInputSchema exampleInput \<and> userInputSchema exampleSmallInput"
  by (simp add: userInputSchema_def exampleInput_def exampleSmallInput_def isDigit_def)

lemma example_findCityData:
  "findCityData exampleCities (location exampleInput) (pincode exampleInput) = Some exampleCity"
  by (simp add: findCityData_def example_defs startsWith_def substring0_def Let_def)


lemma example_demand: "calculateHouseholdDemand exampleCoefficients exampleInput = 197100"
  by (simp add: calculateHouseholdDemand_def example_defs Math_round_def Let_def)

lemma example_calculate:
  "calculate exampleCities exampleCoefficients exampleInput t =
     Inr (resultsFor exampleCoefficients exampleInput t exampleCity)"
  by (simp add: calculate_resultsFor example_findCityData)


lemma example_costs:
  "calculateCosts exampleCoefficients exampleInput 15000 True =
     \<lparr>systemCost' = \<lparr>low = 45600, medium = 57000, high = 74100\<rparr>,
      annualSavings' = 3000, paybackPeriod' = 19\<rparr>"
  by (simp add: calculateCosts_def example_demand Let_def)
    (simp add: example_defs Math_round_def)



theorem C6_savings_payback_witness:
  "0 \<le> roofArea exampleInput \<and> 0 \<le> baseCostPerSqm (costFactors exampleCoefficients)
   \<and> 0 \<le> budgetMultipliers (costFactors exampleCoefficients) Medium
   \<and> annualSavings' (calculateCosts exampleCoefficients exampleInput 15000 True) = 3000
   \<and> paybackPeriod' (calculateCosts exampleCoefficients exampleInput 15000 True) = 19
   \<and> 0 \<le> paybackPeriod' (calculateCosts exampleCoefficients exampleInput 15000 True)
   \<and> paybackPeriod' (calculateCosts exampleCoefficients exampleInput 15000 True) \<le> 20"
proof -
  have h: "0 \<le> roofArea exampleInput" "0 \<le> baseCostPerSqm (costFactors exampleCoefficients)"
    "0 \<le> budgetMultipliers (costFactors exampleCoefficients) Medium"
    by (simp_all add: example_defs)
  with C6_savings_payback [of exampleCoefficients exampleInput 15000 True]
  show ?thesis
    by (simp add: example_costs)
qed

theorem C7_recharge_fields_witness:
  "exampleCities \<noteq> []
   \<and> calculate exampleCities exampleCoefficients exampleInput Recharge =
       Inr (resultsFor exampleCoefficients exampleInput Recharge exampleCity)
   \<and> rechargeVolume (resultsFor exampleCoefficients exampleInput Recharge exampleCity) \<noteq> None
   \<and> pitDimensions (resultsFor exampleCoefficients exampleInput Recharge exampleCity) \<noteq> None
   \<and> calculate exampleCities exampleCoefficients exampleInput Rainwater =
       Inr (resultsFor exampleCoefficients exampleInput Rainwater exampleCity)
   \<and> rechargeVolume (resultsFor exampleCoefficients exampleInput Rainwater exampleCity) = None
   \<and> pitDimensions (resultsFor exampleCoefficients exampleInput Rainwater exampleCity) = None"
proof -
  have "exampleCities \<noteq> []"
    by (simp add: exampleCities_def)
  with C7_recharge_fields [of exampleCities exampleCoefficients exampleInput
      "resultsFor exampleCoefficients exampleInput Recharge exampleCity"]
    C7_recharge_fields [of exampleCities exampleCoefficients exampleInput
      "resultsFor exampleCoefficients exampleInput Rainwater exampleCity"]
  show ?thesis
    by (simp add: example_calculate)
qed


theorem C9_city_resolution_witness:
  "exampleCities \<noteq> []
   \<and> findCityData exampleCities ''Chennai'' ''400012'' = Some exampleCity
   \<and> findCityData exampleCities ''Navi MUMBAI'' ''999999'' = Some exampleCity
   \<and> findCityData exampleCities ''Atlantis'' ''999999'' = Some exampleDelhi
   \<and> findCityData [exampleChennai, exampleCity] ''Atlantis'' ''999999'' = Some exampleChennai
   \<and> findCityData [] ''Atlantis'' ''999999'' = None
   \<and> (\<exists>r. calculate exampleCities exampleCoefficients exampleInput Recharge = Inr r)
   \<and> (\<exists>e. calculate [] exampleCoefficients exampleInput Recharge = Inl e)"
proof -
  have m: "spec_pincodeMatch ''400012'' exampleCity" "\<not> spec_pincodeMatch ''400012'' exampleChennai"
    "\<not> spec_pincodeMatch ''400012'' exampleDelhi"
    "\<not> spec_pincodeMatch ''999999'' exampleCity" "\<not> spec_pincodeMatch ''999999'' exampleChennai"
    "\<not> spec_pincodeMatch ''999999'' exampleDelhi"
    by (simp_all add: spec_pincodeMatch_def example_defs)
  have n: "spec_nameMatch ''Navi MUMBAI'' exampleCity" "\<not> spec_nameMatch ''Navi MUMBAI'' exampleChennai"
    "\<not> spec_nameMatch ''Navi MUMBAI'' exampleDelhi"
    "\<not> spec_nameMatch ''Atlantis'' exampleCity" "\<not> spec_nameMatch ''Atlantis'' exampleChennai"
    "\<not> spec_nameMatch ''Atlantis'' exampleDelhi"
    by (simp_all add: spec_nameMatch_def example_defs toLowerCase_def lowerChar_def sublist_code)
  have d: "city exampleDelhi = ''Delhi''" "city exampleCity \<noteq> ''Delhi''" "city exampleChennai \<noteq> ''Delhi''"
    by (simp_all add: example_defs)
  have ne: "exampleCities \<noteq> []" by (simp add: exampleCities_def)
  show ?thesis
    using C9_city_resolution [of exampleCities "''Chennai''" "''400012''" exampleCoefficients exampleInput Recharge]
      C9_city_resolution [of exampleCities "''Navi MUMBAI''" "''999999''" exampleCoefficients exampleInput Recharge]
      C9_city_resolution [of exampleCities "''Atlantis''" "''999999''" exampleCoefficients exampleInput Recharge]
      C9_city_resolution [of "[exampleChennai, exampleCity]" "''Atlantis''" "''999999''" exampleCoefficients exampleInput Recharge]
      C9_city_resolution [of "[]" "''Atlantis''" "''999999''" exampleCoefficients exampleInput Recharge]
    unfolding spec_resolveCity_def
    by (simp add: exampleCities_def m n d)
qed

text \<open>
  A roof of 10 square meters in a dry city and one dweller: \<open>calculate\<close> passes the
  arguments of the defect of the tank dimensions to \<open>calculateStorageTank\<close>.
\<close>

lemma example_dry_calculate:
  "\<exists>r. calculate [exampleDryCity] exampleCoefficients exampleSmallInput Rainwater = Inr r
     \<and> rainwaterPotential r = 2500
     \<and> monthlyPotential r = [0, 0, 0, 0, 0, 100, 900, 1000, 500, 0, 0, 0]
     \<and> householdDemand r = 49275
     \<and> tankCapacity r =
          capacity (calculateStorageTank 2500 [0, 0, 0, 0, 0, 100, 900, 1000, 500, 0, 0, 0] 49275)
     \<and> tankDimensions r =
          dimensions (calculateStorageTank 2500 [0, 0, 0, 0, 0, 100, 900, 1000, 500, 0, 0, 0] 49275)"
proof -
  have f: "findCityData [exampleDryCity] (location exampleSmallInput) (pincode exampleSmallInput)
      = Some exampleDryCity"
    by (simp add: findCityData_def exampleDryCity_def exampleSmallInput_def startsWith_def
        substring0_def Let_def)
  have p: "calculateRainwaterPotential exampleCoefficients exampleSmallInput exampleDryCity =
      \<lparr>annual = 2500, monthly = [0, 0, 0, 0, 0, 100, 900, 1000, 500, 0, 0, 0]\<rparr>"
    by (simp add: calculateRainwaterPotential_def exampleDryCity_def exampleSmallInput_def
        exampleCoefficients_def Math_round_def Let_def)
  have d: "calculateHouseholdDemand exampleCoefficients exampleSmallInput = 49275"
    by (simp add: calculateHouseholdDemand_def exampleSmallInput_def exampleCoefficients_def
        Math_round_def Let_def)
  show ?thesis
    by (simp add: calculate_resultsFor f resultsFor_def p d)
qed

end
